theory Spec2Isabelle
  imports Main
begin

section \<open>Documents, collections and the store\<close>

text \<open>
  \<^verbatim>\<open>src/server.js\<close> holds two variants of the same Express/Mongoose server (lines 1-238 and
  238-523).  Every handler is a short sequence of Mongoose calls on a collection, so the
  store is modelled as one list of documents per collection, in insertion order (the order
  in which \<^verbatim>\<open>findOne\<close> and \<^verbatim>\<open>findOneAndUpdate\<close> meet the documents).

  A document is its \<^verbatim>\<open>_id\<close> together with its schema fields.  Every schema field used here
  is declared \<^verbatim>\<open>String\<close> and none is required (except in the user schema of variant 2), so a
  field is \<open>Some s\<close> or absent (\<open>None\<close>); a filter \<^verbatim>\<open>{field: v}\<close> selects the documents whose
  field equals \<open>v\<close>.  Request bodies are taken as JSON objects whose fields have the schema's
  types.

  A route parameter \<^verbatim>\<open>:id\<close> is a string, which Mongoose casts to an ObjectId before it looks
  anything up; the cast throws a CastError when the string is no ObjectId.  The delete
  handlers take the parameter as the string it is.  \<^verbatim>\<open>approve\<close> and \<^verbatim>\<open>reject\<close> are given the
  ObjectId that the parameter denotes (when it denotes none, their lookup throws the same
  CastError before anything is read or written).
\<close>

type_synonym oid = nat

type_synonym 'b doc = "oid \<times> 'b"

record faculty_body =
  fac_name :: "string option"

record schedule_body =
  sch_grade :: "string option"
  sch_subject :: "string option"
  sch_faculty :: "string option"
  sch_classroom :: "string option"
  sch_day :: "string option"
  sch_time :: "string option"

record swap_body =
  swp_fromFaculty :: "string option"
  swp_toFaculty :: "string option"
  swp_grade :: "string option"
  swp_day :: "string option"
  swp_time :: "string option"
  swp_status :: "string option"

text \<open>A stored password is the bcrypt hash of a plaintext.  The hash is taken as ideal:
  \<open>Bcrypt p\<close> stands for any hash of \<open>p\<close>, and only \<open>p\<close> compares equal to it.\<close>

datatype pwhash = Bcrypt string

record user_body =
  usr_role :: "string option"
  usr_name :: "string option"
  usr_email :: "string option"
  usr_password :: "pwhash option"

record store =
  User :: "user_body doc list"
  Faculty :: "faculty_body doc list"
  Schedule :: "schedule_body doc list"
  Swap :: "swap_body doc list"
  next_id :: oid

text \<open>JavaScript truthiness of a value that is a string or \<^verbatim>\<open>undefined\<close>.\<close>

definition truthy :: "string option \<Rightarrow> bool" where
  "truthy v = (case v of None \<Rightarrow> False | Some s \<Rightarrow> s \<noteq> [])"

text \<open>JavaScript's \<^verbatim>\<open>!v\<close>.\<close>

definition falsy :: "string option \<Rightarrow> bool" where
  "falsy v = (\<not> truthy v)"

text \<open>A value in a string concatenation: \<^verbatim>\<open>undefined\<close> becomes the text \<^verbatim>\<open>"undefined"\<close>.\<close>

definition js_string :: "string option \<Rightarrow> string" where
  "js_string v = (case v of None \<Rightarrow> ''undefined'' | Some s \<Rightarrow> s)"

text \<open>What a handler can throw.\<close>

datatype js_error =
  TypeError | SyntaxError | CastError | BcryptError | ValidationError | DuplicateKeyError

subsection \<open>The cast of a route parameter to an ObjectId\<close>

text \<open>An ObjectId is written as 24 hexadecimal digits, in either case; it is modelled by
  the number they denote.  Every other string is no ObjectId.  (Older releases of the driver
  read a string of 12 characters as an id too; the statements below leave such strings
  out.)\<close>

definition hex_digit :: "char \<Rightarrow> nat option" where
  "hex_digit c =
     (let n = (of_char c :: nat)
      in if 48 \<le> n \<and> n \<le> 57 then Some (n - 48)
         else if 97 \<le> n \<and> n \<le> 102 then Some (n - 87)
         else if 65 \<le> n \<and> n \<le> 70 then Some (n - 55)
         else None)"

fun hex_value :: "nat \<Rightarrow> string \<Rightarrow> nat option" where
  "hex_value acc [] = Some acc"
| "hex_value acc (c # cs) =
     (case hex_digit c of None \<Rightarrow> None | Some v \<Rightarrow> hex_value (16 * acc + v) cs)"

definition castObjectId :: "string \<Rightarrow> oid option" where
  "castObjectId p = (if length p = 24 then hex_value 0 p else None)"

subsection \<open>The Mongoose calls the handlers make\<close>

definition findOne :: "('b doc \<Rightarrow> bool) \<Rightarrow> 'b doc list \<Rightarrow> 'b doc option" where
  "findOne p ds = find p ds"

definition findById :: "oid \<Rightarrow> 'b doc list \<Rightarrow> 'b doc option" where
  "findById i ds = findOne (\<lambda>d. fst d = i) ds"

text \<open>The first document that satisfies the filter is rewritten; the others stay.\<close>

fun updateOne :: "('b doc \<Rightarrow> bool) \<Rightarrow> ('b \<Rightarrow> 'b) \<Rightarrow> 'b doc list \<Rightarrow> 'b doc list" where
  "updateOne p f [] = []"
| "updateOne p f (d # ds) =
     (if p d then (fst d, f (snd d)) # ds else d # updateOne p f ds)"

fun deleteOne :: "('b doc \<Rightarrow> bool) \<Rightarrow> 'b doc list \<Rightarrow> 'b doc list" where
  "deleteOne p [] = []"
| "deleteOne p (d # ds) = (if p d then ds else d # deleteOne p ds)"

text \<open>\<^verbatim>\<open>findOneAndUpdate(filter, update)\<close>: the result is the document as it was found.\<close>

definition findOneAndUpdate ::
  "('b doc \<Rightarrow> bool) \<Rightarrow> ('b \<Rightarrow> 'b) \<Rightarrow> 'b doc list \<Rightarrow> 'b doc option \<times> 'b doc list" where
  "findOneAndUpdate p f ds = (findOne p ds, updateOne p f ds)"

text \<open>\<^verbatim>\<open>findByIdAndUpdate(id, update, {new:true})\<close>: the result is the updated document,
  or \<^verbatim>\<open>null\<close> when no document has the id.\<close>

definition findByIdAndUpdate_new ::
  "oid \<Rightarrow> ('b \<Rightarrow> 'b) \<Rightarrow> 'b doc list \<Rightarrow> 'b doc option \<times> 'b doc list" where
  "findByIdAndUpdate_new i f ds =
     (map_option (\<lambda>d. (fst d, f (snd d))) (findById i ds), updateOne (\<lambda>d. fst d = i) f ds)"

text \<open>\<^verbatim>\<open>findByIdAndDelete(req.params.id)\<close>: the parameter is cast first; the result is the
  document deleted, or \<^verbatim>\<open>null\<close> when no document has the id.\<close>

definition findByIdAndDelete ::
  "string \<Rightarrow> 'b doc list \<Rightarrow> js_error + 'b doc option \<times> 'b doc list" where
  "findByIdAndDelete p ds =
     (case castObjectId p of
        None \<Rightarrow> Inl CastError
      | Some i \<Rightarrow> Inr (findById i ds, deleteOne (\<lambda>d. fst d = i) ds))"

definition deleteMany :: "('b doc \<Rightarrow> bool) \<Rightarrow> 'b doc list \<Rightarrow> 'b doc list" where
  "deleteMany p ds = filter (\<lambda>d. \<not> p d) ds"

text \<open>\<^verbatim>\<open>insertMany(docs)\<close>: each entry becomes a document with an id of its own.\<close>

definition insertMany :: "oid \<Rightarrow> 'b list \<Rightarrow> 'b doc list" where
  "insertMany n bs = zip [n ..< n + length bs] bs"

subsection \<open>Responses\<close>

text \<open>The payload of a token and \<^verbatim>\<open>jwt.sign(payload, SECRET, {expiresIn})\<close>, the expiry in hours.\<close>

record claims =
  clm_id :: "oid option"
  clm_role :: "string option"
  clm_name :: "string option"
  clm_email :: "string option"

datatype token = Jwt claims nat

datatype payload =
    Null
  | Message string
  | LoginJson "string option" token "string option" "string option"
  | FacultyJson "faculty_body doc"
  | ScheduleJson "schedule_body doc"
  | SchedulesJson "schedule_body doc list"
  | SwapJson "swap_body doc"

text \<open>
  \<open>Response c p\<close> is \<^verbatim>\<open>res.status(c).json(p)\<close> (\<open>c = 200\<close> for a bare \<^verbatim>\<open>res.json\<close>).
  \<open>Rejected e\<close>: the handler threw \<open>e\<close> outside any \<^verbatim>\<open>try\<close>, so the promise of the
  \<^verbatim>\<open>async\<close> handler is rejected and the handler sends no response.
\<close>

datatype response = Response nat payload | Rejected js_error

section \<open>Timetable and swap handlers\<close>

text \<open>The handlers of this section have the same body in both variants (variant 2 names
  the swap model \<^verbatim>\<open>SwapRequest\<close>).\<close>

record schedules_request =
  ps_grade :: "string option"
  ps_schedules :: "schedule_body list"

text \<open>\<^verbatim>\<open>app.post("/schedules")\<close>, lines 181-185 and 470-474.\<close>

definition post_schedules :: "store \<Rightarrow> schedules_request \<Rightarrow> response \<times> store" where
  "post_schedules st b =
     (let kept = deleteMany (\<lambda>d. sch_grade (snd d) = ps_grade b) (Schedule st);
          saved = insertMany (next_id st) (ps_schedules b)
      in (Response 200 (SchedulesJson saved),
          st\<lparr>Schedule := kept @ saved, next_id := next_id st + length saved\<rparr>))"

text \<open>\<^verbatim>\<open>new Swap(req.body)\<close>: the schema default fills \<^verbatim>\<open>status\<close> only when the body has none.\<close>

definition new_Swap :: "swap_body \<Rightarrow> swap_body" where
  "new_Swap b = (case swp_status b of None \<Rightarrow> b\<lparr>swp_status := Some ''pending''\<rparr> | Some s \<Rightarrow> b)"

text \<open>\<^verbatim>\<open>app.post("/swaps")\<close>, lines 195-197 and 480.\<close>

definition post_swaps :: "store \<Rightarrow> swap_body \<Rightarrow> response \<times> store" where
  "post_swaps st b =
     (let d = (next_id st, new_Swap b)
      in (Response 200 (SwapJson d), st\<lparr>Swap := Swap st @ [d], next_id := Suc (next_id st)\<rparr>))"

text \<open>The filter of the schedule update in \<^verbatim>\<open>approve\<close>: all four fields equal the swap's.\<close>

definition swap_slot :: "swap_body \<Rightarrow> schedule_body doc \<Rightarrow> bool" where
  "swap_slot w d =
     (sch_grade (snd d) = swp_grade w \<and> sch_day (snd d) = swp_day w \<and>
      sch_time (snd d) = swp_time w \<and> sch_faculty (snd d) = swp_fromFaculty w)"

text \<open>\<^verbatim>\<open>app.put("/swaps/:id/approve")\<close>, lines 199-208 and 481-491.  When no swap has the id,
  \<^verbatim>\<open>swap\<close> is \<^verbatim>\<open>null\<close> and reading \<^verbatim>\<open>swap.toFaculty\<close> throws a TypeError.\<close>

definition approve :: "store \<Rightarrow> oid \<Rightarrow> response \<times> store" where
  "approve st i =
     (let (swap, swaps) = findByIdAndUpdate_new i (\<lambda>b. b\<lparr>swp_status := Some ''approved''\<rparr>) (Swap st);
          st1 = st\<lparr>Swap := swaps\<rparr>
      in case swap of
           None \<Rightarrow> (Rejected TypeError, st1)
         | Some w \<Rightarrow>
             (let st2 =
                (if truthy (swp_toFaculty (snd w))
                 then st1\<lparr>Schedule :=
                        snd (findOneAndUpdate (swap_slot (snd w))
                               (\<lambda>e. e\<lparr>sch_faculty := swp_toFaculty (snd w)\<rparr>) (Schedule st1))\<rparr>
                 else st1)
              in (Response 200 (SwapJson w), st2)))"

text \<open>\<^verbatim>\<open>app.put("/swaps/:id/reject")\<close>, lines 210-212 and 492.\<close>

definition reject :: "store \<Rightarrow> oid \<Rightarrow> response \<times> store" where
  "reject st i =
     (let (swap, swaps) = findByIdAndUpdate_new i (\<lambda>b. b\<lparr>swp_status := Some ''rejected''\<rparr>) (Swap st)
      in (Response 200 (case swap of None \<Rightarrow> Null | Some w \<Rightarrow> SwapJson w), st\<lparr>Swap := swaps\<rparr>))"

section \<open>Delete by id\<close>

text \<open>None of the delete handlers has a \<^verbatim>\<open>try\<close>: an error of the lookup rejects the handler.\<close>

text \<open>\<^verbatim>\<open>app.delete("/faculty/:id")\<close>, lines 160 and 444.\<close>

definition delete_faculty :: "store \<Rightarrow> string \<Rightarrow> response \<times> store" where
  "delete_faculty st p =
     (case findByIdAndDelete p (Faculty st) of
        Inl e \<Rightarrow> (Rejected e, st)
      | Inr (d, ds) \<Rightarrow>
          (Response 200 (case d of None \<Rightarrow> Null | Some f \<Rightarrow> FacultyJson f), st\<lparr>Faculty := ds\<rparr>))"

text \<open>\<^verbatim>\<open>app.delete("/swaps/:id")\<close>, lines 214-216 and 493.\<close>

definition delete_swap :: "store \<Rightarrow> string \<Rightarrow> response \<times> store" where
  "delete_swap st p =
     (case findByIdAndDelete p (Swap st) of
        Inl e \<Rightarrow> (Rejected e, st)
      | Inr (d, ds) \<Rightarrow>
          (Response 200 (case d of None \<Rightarrow> Null | Some w \<Rightarrow> SwapJson w), st\<lparr>Swap := ds\<rparr>))"

text \<open>\<^verbatim>\<open>app.delete("/schedules/:id")\<close>, line 476 (variant 2 only).\<close>

definition delete_schedule :: "store \<Rightarrow> string \<Rightarrow> response \<times> store" where
  "delete_schedule st p =
     (case findByIdAndDelete p (Schedule st) of
        Inl e \<Rightarrow> (Rejected e, st)
      | Inr (d, ds) \<Rightarrow>
          (Response 200 (case d of None \<Rightarrow> Null | Some e \<Rightarrow> ScheduleJson e), st\<lparr>Schedule := ds\<rparr>))"

section \<open>Strings\<close>

text \<open>Strings are taken over ASCII: case mapping changes the letters \<^verbatim>\<open>a-z\<close> and \<^verbatim>\<open>A-Z\<close>
  only, and \<^verbatim>\<open>trim\<close> removes tab, line feed, vertical tab, form feed, carriage return
  and space.\<close>

definition toUpperCase_char :: "char \<Rightarrow> char" where
  "toUpperCase_char c =
     (let n = (of_char c :: nat) in if 97 \<le> n \<and> n \<le> 122 then char_of (n - 32) else c)"

definition toLowerCase_char :: "char \<Rightarrow> char" where
  "toLowerCase_char c =
     (let n = (of_char c :: nat) in if 65 \<le> n \<and> n \<le> 90 then char_of (n + 32) else c)"

definition toUpperCase :: "string \<Rightarrow> string" where
  "toUpperCase s = map toUpperCase_char s"

definition toLowerCase :: "string \<Rightarrow> string" where
  "toLowerCase s = map toLowerCase_char s"

definition is_whitespace :: "char \<Rightarrow> bool" where
  "is_whitespace c = ((of_char c :: nat) \<in> {9, 10, 11, 12, 13, 32})"

definition trim :: "string \<Rightarrow> string" where
  "trim s = rev (dropWhile is_whitespace (rev (dropWhile is_whitespace s)))"

text \<open>\<^verbatim>\<open>s.charAt(n)\<close>: the character at \<open>n\<close> as a string, or the empty string.\<close>

definition charAt :: "string \<Rightarrow> nat \<Rightarrow> string" where
  "charAt s n = take 1 (drop n s)"

section \<open>Regular expressions: the fragment the model evaluates\<close>

text \<open>
  \<^verbatim>\<open>new RegExp(source, "i")\<close> is evaluated for sources built from literal characters, \<^verbatim>\<open>.\<close>,
  the assertions \<^verbatim>\<open>^\<close> and \<^verbatim>\<open>$\<close>, and the quantifiers \<^verbatim>\<open>*\<close>, \<^verbatim>\<open>+\<close>, \<^verbatim>\<open>?\<close> (each optionally
  followed by the lazy mark \<^verbatim>\<open>?\<close>, which does not change whether a string matches).  A
  quantifier with nothing to repeat is a SyntaxError.  A source that contains one of
  \<^verbatim>\<open>( ) [ ] { } |\<close> or a backslash is outside the fragment.  Matching is the one ECMAScript
  defines; the engine of the database, which evaluates \<^verbatim>\<open>$regex\<close>, agrees with it on this
  fragment for names without line terminators.
\<close>

datatype quant = Once | Star | Plus | Opt

datatype atom = Lit char | AnyChar

datatype rx_item = Bol | Eol | Atom atom quant

datatype rx_token = TAtom atom | TBol | TEol | TQuant quant | TOutside

definition rx_token_of :: "char \<Rightarrow> rx_token" where
  "rx_token_of c =
     (if c = CHR ''.'' then TAtom AnyChar
      else if c = CHR ''^'' then TBol
      else if c = CHR ''$'' then TEol
      else if c = CHR ''*'' then TQuant Star
      else if c = CHR ''+'' then TQuant Plus
      else if c = CHR ''?'' then TQuant Opt
      else if c \<in> set ''()[]{}|'' \<or> c = CHR 0x5C then TOutside
      else TAtom (Lit c))"

text \<open>A string without metacharacters: every character stands for itself.\<close>

definition plain_text :: "string \<Rightarrow> bool" where
  "plain_text s = list_all (\<lambda>c. rx_token_of c = TAtom (Lit c)) s"

datatype rx_parse = Pattern "rx_item list" | Invalid | Unsupported

definition rx_cons :: "rx_item \<Rightarrow> rx_parse \<Rightarrow> rx_parse" where
  "rx_cons x r = (case r of Pattern xs \<Rightarrow> Pattern (x # xs) | Invalid \<Rightarrow> Invalid | Unsupported \<Rightarrow> Unsupported)"

fun rx_items :: "rx_token list \<Rightarrow> rx_parse" where
  "rx_items [] = Pattern []"
| "rx_items (TOutside # ts) = Unsupported"
| "rx_items (TQuant q # ts) = Invalid"
| "rx_items (TBol # ts) = rx_cons Bol (rx_items ts)"
| "rx_items (TEol # ts) = rx_cons Eol (rx_items ts)"
| "rx_items (TAtom a # TQuant q # TQuant Opt # ts) = rx_cons (Atom a q) (rx_items ts)"
| "rx_items (TAtom a # TQuant q # ts) = rx_cons (Atom a q) (rx_items ts)"
| "rx_items (TAtom a # ts) = rx_cons (Atom a Once) (rx_items ts)"

definition RegExp :: "string \<Rightarrow> rx_parse" where
  "RegExp source =
     (let ts = map rx_token_of source
      in if TOutside \<in> set ts then Unsupported else rx_items ts)"

text \<open>With the flag \<^verbatim>\<open>i\<close> two characters are equal when their upper-case forms are;
  \<^verbatim>\<open>.\<close> matches every character but a line terminator.\<close>

definition atom_matches :: "atom \<Rightarrow> char \<Rightarrow> bool" where
  "atom_matches a c =
     (case a of
        Lit p \<Rightarrow> toUpperCase_char p = toUpperCase_char c
      | AnyChar \<Rightarrow> (of_char c :: nat) \<notin> {10, 13})"

text \<open>\<open>match_here xs start s\<close>: the items \<open>xs\<close> match a prefix of \<open>s\<close>; \<open>start\<close> tells whether
  \<open>s\<close> is the whole input (for \<^verbatim>\<open>^\<close>).\<close>

fun match_here :: "rx_item list \<Rightarrow> bool \<Rightarrow> string \<Rightarrow> bool" where
  "match_here [] start s = True"
| "match_here (Bol # xs) start s = (start \<and> match_here xs start s)"
| "match_here (Eol # xs) start s = (s = [] \<and> match_here xs start s)"
| "match_here (Atom a Once # xs) start [] = False"
| "match_here (Atom a Once # xs) start (c # s) = (atom_matches a c \<and> match_here xs False s)"
| "match_here (Atom a Opt # xs) start [] = match_here xs start []"
| "match_here (Atom a Opt # xs) start (c # s) =
     ((atom_matches a c \<and> match_here xs False s) \<or> match_here xs start (c # s))"
| "match_here (Atom a Star # xs) start [] = match_here xs start []"
| "match_here (Atom a Star # xs) start (c # s) =
     ((atom_matches a c \<and> match_here (Atom a Star # xs) False s) \<or> match_here xs start (c # s))"
| "match_here (Atom a Plus # xs) start [] = False"
| "match_here (Atom a Plus # xs) start (c # s) =
     (atom_matches a c \<and> match_here (Atom a Star # xs) False s)"

text \<open>\<^verbatim>\<open>regex.test(s)\<close>: a match may begin at any position of \<open>s\<close>.\<close>

fun match_from :: "rx_item list \<Rightarrow> bool \<Rightarrow> string \<Rightarrow> bool" where
  "match_from xs start [] = match_here xs start []"
| "match_from xs start (c # s) = (match_here xs start (c # s) \<or> match_from xs False s)"

definition RegExp_test :: "rx_item list \<Rightarrow> string \<Rightarrow> bool" where
  "RegExp_test xs s = match_from xs True s"

section \<open>Authentication\<close>

subsection \<open>bcrypt and the user collection\<close>

text \<open>\<^verbatim>\<open>bcrypt.hashSync\<close> and \<^verbatim>\<open>bcrypt.compareSync\<close> throw when an argument is not a string.\<close>

definition hashSync :: "string option \<Rightarrow> nat \<Rightarrow> js_error + pwhash" where
  "hashSync password rounds = (case password of None \<Rightarrow> Inl BcryptError | Some p \<Rightarrow> Inr (Bcrypt p))"

definition compareSync :: "string option \<Rightarrow> pwhash option \<Rightarrow> js_error + bool" where
  "compareSync password hash =
     (case (password, hash) of
        (Some p, Some h) \<Rightarrow> Inr (h = Bcrypt p)
      | _ \<Rightarrow> Inl BcryptError)"

text \<open>\<^verbatim>\<open>user.save()\<close>.  The email path is declared \<^verbatim>\<open>unique:true\<close>: the insert fails with a
  duplicate-key error when a stored user has the very same email.\<close>

definition save_User_v1 :: "store \<Rightarrow> user_body \<Rightarrow> js_error + store" where
  "save_User_v1 st u =
     (if usr_email u \<in> set (map (\<lambda>d. usr_email (snd d)) (User st)) then Inl DuplicateKeyError
      else Inr (st\<lparr>User := User st @ [(next_id st, u)], next_id := Suc (next_id st)\<rparr>))"

text \<open>Variant 2 declares \<^verbatim>\<open>role\<close>, \<^verbatim>\<open>email\<close> and \<^verbatim>\<open>password\<close> required, which \<^verbatim>\<open>save\<close> validates
  first (a required string must be present and not empty).\<close>

definition save_User_v2 :: "store \<Rightarrow> user_body \<Rightarrow> js_error + store" where
  "save_User_v2 st u =
     (if falsy (usr_role u) \<or> falsy (usr_email u) \<or> usr_password u = None then Inl ValidationError
      else save_User_v1 st u)"

record signup_request =
  su_role :: "string option"
  su_name :: "string option"
  su_email :: "string option"
  su_password :: "string option"

subsection \<open>Signup\<close>

text \<open>\<^verbatim>\<open>app.post("/signup", verifyToken, ...)\<close> of variant 1, lines 113-123.  The handler runs
  after \<^verbatim>\<open>verifyToken\<close> has put the decoded token into \<^verbatim>\<open>req.user\<close>; it has no \<^verbatim>\<open>try\<close>.\<close>

definition signup_v1 :: "store \<Rightarrow> claims \<Rightarrow> signup_request \<Rightarrow> response \<times> store" where
  "signup_v1 st user b =
     (if clm_role user \<noteq> Some ''admin'' then (Response 403 (Message ''Only admin allowed''), st)
      else case hashSync (su_password b) 8 of
             Inl e \<Rightarrow> (Rejected e, st)
           | Inr hashed \<Rightarrow>
               (case save_User_v1 st
                       \<lparr>usr_role = su_role b, usr_name = su_name b, usr_email = su_email b,
                        usr_password = Some hashed\<rparr> of
                  Inl e \<Rightarrow> (Rejected e, st)
                | Inr st' \<Rightarrow> (Response 200 (Message ''User created''), st')))"

text \<open>\<^verbatim>\<open>app.post("/signup", ...)\<close> of variant 2, lines 324-358.  Everything runs inside
  \<^verbatim>\<open>try\<close>; the \<^verbatim>\<open>catch\<close> answers 500.\<close>

definition signup_v2 :: "store \<Rightarrow> signup_request \<Rightarrow> response \<times> store" where
  "signup_v2 st b =
     (if falsy (su_role b) \<or> falsy (su_name b) \<or> falsy (su_email b) \<or> falsy (su_password b)
      then (Response 400 (Message ''All fields required''), st)
      else
        (let normalizedEmail = map_option toLowerCase (su_email b)
         in case findOne (\<lambda>d. usr_email (snd d) = normalizedEmail) (User st) of
              Some existing \<Rightarrow> (Response 400 (Message ''User already exists''), st)
            | None \<Rightarrow>
                (case hashSync (su_password b) 8 of
                   Inl e \<Rightarrow> (Response 500 (Message ''Server error''), st)
                 | Inr hashed \<Rightarrow>
                     (case save_User_v2 st
                             \<lparr>usr_role = su_role b, usr_name = su_name b,
                              usr_email = normalizedEmail, usr_password = Some hashed\<rparr> of
                        Inl e \<Rightarrow> (Response 500 (Message ''Server error''), st)
                      | Inr st' \<Rightarrow> (Response 200 (Message ''Signup successful''), st')))))"

text \<open>\<^verbatim>\<open>seedDefaultAccounts\<close> of variant 2, lines 303-320, run once the connection is up; an
  error of \<^verbatim>\<open>save\<close> ends the function and is logged by the caller.\<close>

definition seed_user :: "string \<Rightarrow> string \<Rightarrow> string \<Rightarrow> string \<Rightarrow> store \<Rightarrow> js_error + store" where
  "seed_user role name email password st =
     (case findOne (\<lambda>d. usr_email (snd d) = Some email) (User st) of
        Some found \<Rightarrow> Inr st
      | None \<Rightarrow>
          (case hashSync (Some password) 8 of
             Inl e \<Rightarrow> Inl e
           | Inr hashed \<Rightarrow>
               save_User_v2 st
                 \<lparr>usr_role = Some role, usr_name = Some name, usr_email = Some email,
                  usr_password = Some hashed\<rparr>))"

definition seedDefaultAccounts :: "store \<Rightarrow> store" where
  "seedDefaultAccounts st =
     (case seed_user ''student'' ''Demo Student'' ''student@smartclass.com'' ''Vignan'' st of
        Inl e \<Rightarrow> st
      | Inr st1 \<Rightarrow>
          (case seed_user ''admin'' ''Demo Admin'' ''admin@smartclass.com'' ''Vignanfaculty'' st1 of
             Inl e \<Rightarrow> st1
           | Inr st2 \<Rightarrow> st2))"

text \<open>Every stored email is in lower case.\<close>

definition emails_lowercase :: "store \<Rightarrow> bool" where
  "emails_lowercase st =
     list_all (\<lambda>d. case usr_email (snd d) of None \<Rightarrow> True | Some e \<Rightarrow> toLowerCase e = e) (User st)"

subsection \<open>Login\<close>

record login_request =
  lg_role :: "string option"
  lg_email :: "string option"
  lg_password :: "string option"

text \<open>\<^verbatim>\<open>Faculty.findOne({name: {$regex: new RegExp(source, "i")}})\<close>: the first faculty document
  whose name is a string that the expression matches.\<close>

datatype 'a outcome = Returns 'a | Throws js_error | Outside_fragment

definition Faculty_findOne_regex ::
  "string \<Rightarrow> faculty_body doc list \<Rightarrow> faculty_body doc option outcome" where
  "Faculty_findOne_regex source ds =
     (case RegExp source of
        Unsupported \<Rightarrow> Outside_fragment
      | Invalid \<Rightarrow> Throws SyntaxError
      | Pattern xs \<Rightarrow>
          Returns (findOne (\<lambda>d. case fac_name (snd d) of
                                    None \<Rightarrow> False
                                  | Some n \<Rightarrow> RegExp_test xs n) ds))"

text \<open>The teacher's password, lines 135-136 and 378-379.\<close>

definition correctPassword :: "string \<Rightarrow> string" where
  "correctPassword name = toUpperCase (charAt (trim name) 0) @ ''1234''"

text \<open>The teacher branch after the lookup statement, lines 133-143 of variant 1 (no
  \<^verbatim>\<open>try\<close>).  What the lookup gave is an error thrown, \<^verbatim>\<open>null\<close>, or the faculty document
  found.\<close>

definition teacher_login_v1 :: "js_error + faculty_body doc option \<Rightarrow> login_request \<Rightarrow> response" where
  "teacher_login_v1 lookup b =
     (case lookup of
        Inl e \<Rightarrow> Rejected e
      | Inr None \<Rightarrow> Response 400 (Message ''Faculty not found'')
      | Inr (Some faculty) \<Rightarrow>
          (case fac_name (snd faculty) of
             None \<Rightarrow> Rejected TypeError
           | Some name \<Rightarrow>
               if lg_password b \<noteq> Some (correctPassword name)
               then Response 400 (Message ''Invalid password'')
               else Response 200
                      (LoginJson None
                         (Jwt \<lparr>clm_id = None, clm_role = Some ''teacher'', clm_name = Some name,
                               clm_email = None\<rparr> 2)
                         (Some ''teacher'') (Some name))))"

text \<open>\<^verbatim>\<open>app.post("/login")\<close> of variant 1, lines 126-153.  The result is \<open>None\<close> when the
  regular expression is outside the fragment above; login writes nothing.\<close>

definition login_v1 :: "store \<Rightarrow> login_request \<Rightarrow> response option" where
  "login_v1 st b =
     (if lg_role b = Some ''teacher'' then
        (case Faculty_findOne_regex (''^'' @ js_string (lg_email b) @ ''$'') (Faculty st) of
           Outside_fragment \<Rightarrow> None
         | Throws e \<Rightarrow> Some (teacher_login_v1 (Inl e) b)
         | Returns found \<Rightarrow> Some (teacher_login_v1 (Inr found) b))
      else
        (case findOne (\<lambda>d. usr_email (snd d) = lg_email b \<and> usr_role (snd d) = lg_role b) (User st) of
           None \<Rightarrow> Some (Response 400 (Message ''Invalid credentials''))
         | Some user \<Rightarrow>
             (case compareSync (lg_password b) (usr_password (snd user)) of
                Inl e \<Rightarrow> Some (Rejected e)
              | Inr valid \<Rightarrow>
                  if \<not> valid then Some (Response 400 (Message ''Invalid credentials''))
                  else Some (Response 200
                         (LoginJson None
                            (Jwt \<lparr>clm_id = Some (fst user), clm_role = usr_role (snd user),
                                  clm_name = usr_name (snd user), clm_email = None\<rparr> 2)
                            (usr_role (snd user)) (usr_name (snd user)))))))"

text \<open>The teacher branch after the lookup statement, lines 375-395 of variant 2; an error
  is caught and answered with 500.\<close>

definition teacher_login_v2 :: "js_error + faculty_body doc option \<Rightarrow> login_request \<Rightarrow> response" where
  "teacher_login_v2 lookup b =
     (case lookup of
        Inl e \<Rightarrow> Response 500 (Message ''Server error'')
      | Inr None \<Rightarrow> Response 400 (Message ''Faculty not found'')
      | Inr (Some faculty) \<Rightarrow>
          (case fac_name (snd faculty) of
             None \<Rightarrow> Response 500 (Message ''Server error'')
           | Some name \<Rightarrow>
               if lg_password b \<noteq> Some (correctPassword name)
               then Response 400 (Message ''Invalid password'')
               else Response 200
                      (LoginJson (Some ''Faculty login successful'')
                         (Jwt \<lparr>clm_id = None, clm_role = Some ''teacher'', clm_name = Some name,
                               clm_email = None\<rparr> 1)
                         (Some ''teacher'') (Some name))))"

text \<open>\<^verbatim>\<open>app.post("/login")\<close> of variant 2, lines 361-425: the fields are checked first, and
  every error is caught and answered with 500.\<close>

definition login_v2 :: "store \<Rightarrow> login_request \<Rightarrow> response option" where
  "login_v2 st b =
     (if falsy (lg_role b) \<or> falsy (lg_email b) \<or> falsy (lg_password b)
      then Some (Response 400 (Message ''Missing required fields''))
      else if lg_role b = Some ''teacher'' then
        (case Faculty_findOne_regex (''^'' @ js_string (lg_email b) @ ''$'') (Faculty st) of
           Outside_fragment \<Rightarrow> None
         | Throws e \<Rightarrow> Some (teacher_login_v2 (Inl e) b)
         | Returns found \<Rightarrow> Some (teacher_login_v2 (Inr found) b))
      else
        (case findOne (\<lambda>d. usr_email (snd d) = lg_email b \<and> usr_role (snd d) = lg_role b) (User st) of
           None \<Rightarrow> Some (Response 400 (Message ''Invalid credentials''))
         | Some user \<Rightarrow>
             (case compareSync (lg_password b) (usr_password (snd user)) of
                Inl e \<Rightarrow> Some (Response 500 (Message ''Server error''))
              | Inr valid \<Rightarrow>
                  if \<not> valid then Some (Response 400 (Message ''Invalid credentials''))
                  else Some (Response 200
                         (LoginJson (Some ''Login successful'')
                            (Jwt \<lparr>clm_id = Some (fst user), clm_role = usr_role (snd user),
                                  clm_name = None, clm_email = usr_email (snd user)\<rparr> 1)
                            (usr_role (snd user)) (usr_name (snd user)))))))"

section \<open>Example data\<close>

text \<open>The scenario of the swap approval: one timetable entry of Alice and the request to
  hand it to Bob.\<close>

definition math_slot :: schedule_body where
  "math_slot =
     \<lparr>sch_grade = Some ''10A'', sch_subject = Some ''Math'', sch_faculty = Some ''Alice'',
      sch_classroom = Some ''R1'', sch_day = Some ''Mon'', sch_time = Some ''9am''\<rparr>"

definition physics_slot :: schedule_body where
  "physics_slot =
     \<lparr>sch_grade = Some ''9B'', sch_subject = Some ''Physics'', sch_faculty = Some ''Carol'',
      sch_classroom = Some ''R2'', sch_day = Some ''Tue'', sch_time = Some ''10am''\<rparr>"

definition alice_to_bob :: swap_body where
  "alice_to_bob =
     \<lparr>swp_fromFaculty = Some ''Alice'', swp_toFaculty = Some ''Bob'', swp_grade = Some ''10A'',
      swp_day = Some ''Mon'', swp_time = Some ''9am'', swp_status = Some ''pending''\<rparr>"

definition bob_user :: user_body where
  "bob_user =
     \<lparr>usr_role = Some ''student'', usr_name = Some ''Bob'', usr_email = Some ''bob@x.com'',
      usr_password = Some (Bcrypt ''secret'')\<rparr>"

definition school :: store where
  "school =
     \<lparr>User = [(0, bob_user)],
      Faculty = [(1, \<lparr>fac_name = Some ''Alice''\<rparr>), (2, \<lparr>fac_name = Some ''a+b''\<rparr>)],
      Schedule = [(3, math_slot), (4, physics_slot)],
      Swap = [(5, alice_to_bob)],
      next_id = 6\<rparr>"

definition admin_token :: claims where
  "admin_token = \<lparr>clm_id = Some 0, clm_role = Some ''admin'', clm_name = Some ''Root'', clm_email = None\<rparr>"

definition bob_again :: signup_request where
  "bob_again =
     \<lparr>su_role = Some ''student'', su_name = Some ''Bobby'', su_email = Some ''Bob@X.com'',
      su_password = Some ''hunter2''\<rparr>"

text \<open>A faculty name with white space around it: a tab and a space before, a space after.\<close>

definition padded_alice :: string where
  "padded_alice = CHR 0x09 # '' alice ''"

definition staff_room :: store where
  "staff_room =
     \<lparr>User = [], Faculty = [(1, \<lparr>fac_name = Some padded_alice\<rparr>)], Schedule = [], Swap = [],
      next_id = 2\<rparr>"

definition teacher_request :: "string \<Rightarrow> string \<Rightarrow> login_request" where
  "teacher_request email password =
     \<lparr>lg_role = Some ''teacher'', lg_email = Some email, lg_password = Some password\<rparr>"

section \<open>Facts about the Mongoose calls\<close>

lemma findById_None_iff: "findById i ds = None \<longleftrightarrow> i \<notin> fst ` set ds"
  by (force simp: findById_def findOne_def find_None_iff)

lemma updateOne_no_match: "\<forall>d \<in> set ds. \<not> p d \<Longrightarrow> updateOne p f ds = ds"
  by (induction ds) auto

lemma deleteOne_no_match: "\<forall>d \<in> set ds. \<not> p d \<Longrightarrow> deleteOne p ds = ds"
  by (induction ds) auto


lemma findById_updateOne:
  "findById i (updateOne (\<lambda>d. fst d = i) f ds) =
     map_option (\<lambda>d. (fst d, f (snd d))) (findById i ds)"
  by (induction ds) (auto simp: findById_def findOne_def)

lemma updateOne_first:
  "\<forall>d \<in> set pre. \<not> p d \<Longrightarrow> p s \<Longrightarrow>
   updateOne p f (pre @ s # post) = pre @ (fst s, f (snd s)) # post"
  by (induction pre) auto

lemma updateOne_list_all2:
  "list_all2 (\<lambda>d d'. d' = d \<or> (p d \<and> d' = (fst d, f (snd d)))) ds (updateOne p f ds)"
  by (induction ds) (auto simp: list_all2_same)

lemma findByIdAndDelete_missing:
  assumes "castObjectId p = Some i" and "i \<notin> fst ` set ds"
  shows "findByIdAndDelete p ds = Inr (None, ds)"
proof -
  from assms(2) have "\<forall>d \<in> set ds. \<not> fst d = i" by auto
  then show ?thesis using assms
    by (simp add: findByIdAndDelete_def findById_None_iff deleteOne_no_match)
qed

lemma findByIdAndDelete_malformed:
  "castObjectId p = None \<Longrightarrow> findByIdAndDelete p ds = Inl CastError"
  by (simp add: findByIdAndDelete_def)

lemma map_snd_insertMany: "map snd (insertMany n bs) = bs"
  by (simp add: insertMany_def)

lemma fst_insertMany_ge: "d \<in> set (insertMany n bs) \<Longrightarrow> n \<le> fst d"
  by (auto simp: insertMany_def set_zip)

lemma filter_insertMany: "map snd (filter (\<lambda>d. P (snd d)) (insertMany n bs)) = filter P bs"
proof -
  have "map snd (filter (\<lambda>d. P (snd d)) ds) = filter P (map snd ds)" for ds :: "'a doc list"
    by (induction ds) auto
  then show ?thesis by (simp add: map_snd_insertMany)
qed

section \<open>Swap requests\<close>

lemma swap_slot_status: "swap_slot (w\<lparr>swp_status := x\<rparr>) = swap_slot w"
  by (rule ext) (simp add: swap_slot_def)

lemma approve_found:
  "findById i (Swap st) = Some (i, R) \<Longrightarrow>
   approve st i =
     (Response 200 (SwapJson (i, R\<lparr>swp_status := Some ''approved''\<rparr>)),
      st\<lparr>Swap := updateOne (\<lambda>d. fst d = i) (\<lambda>b. b\<lparr>swp_status := Some ''approved''\<rparr>) (Swap st),
         Schedule := (if truthy (swp_toFaculty R)
                      then updateOne (swap_slot R) (\<lambda>e. e\<lparr>sch_faculty := swp_toFaculty R\<rparr>) (Schedule st)
                      else Schedule st)\<rparr>)"
  by (simp add: approve_def findByIdAndUpdate_new_def findOneAndUpdate_def Let_def swap_slot_status)


text \<open>
  C1.  Approving a swap request \<open>R\<close> that is in the store answers with \<open>R\<close> marked
  \<^verbatim>\<open>"approved"\<close> and stores it so.  When \<open>R.toFaculty\<close> is a non-empty string and a timetable
  entry has \<open>R\<close>'s grade, day and time and the faculty \<open>R.fromFaculty\<close>, the first such entry
  gets the faculty \<open>R.toFaculty\<close> and every other entry stays; when no entry matches, the
  timetable stays as it was, and the answer is still the approved request.
\<close>

theorem approve_existing_swap:
  assumes "findById i (Swap st) = Some (i, R)"
  shows "fst (approve st i) = Response 200 (SwapJson (i, R\<lparr>swp_status := Some ''approved''\<rparr>)) \<and>
    findById i (Swap (snd (approve st i))) = Some (i, R\<lparr>swp_status := Some ''approved''\<rparr>) \<and>
    (truthy (swp_toFaculty R) \<and> Schedule st = pre @ s # post \<and> swap_slot R s \<and>
       (\<forall>d \<in> set pre. \<not> swap_slot R d) \<longrightarrow>
     Schedule (snd (approve st i)) = pre @ (fst s, (snd s)\<lparr>sch_faculty := swp_toFaculty R\<rparr>) # post) \<and>
    ((\<forall>d \<in> set (Schedule st). \<not> swap_slot R d) \<longrightarrow>
     Schedule (snd (approve st i)) = Schedule st)"
  using assms
  by (auto simp: approve_found findById_updateOne updateOne_first updateOne_no_match)

theorem approve_existing_swap_witness:
  "fst (approve school 5) = Response 200 (SwapJson (5, alice_to_bob\<lparr>swp_status := Some ''approved''\<rparr>)) \<and>
   findById 5 (Swap (snd (approve school 5))) = Some (5, alice_to_bob\<lparr>swp_status := Some ''approved''\<rparr>) \<and>
   Schedule (snd (approve school 5)) = [(3, math_slot\<lparr>sch_faculty := Some ''Bob''\<rparr>), (4, physics_slot)] \<and>
   Schedule (snd (approve (school\<lparr>Schedule := [(4, physics_slot)]\<rparr>) 5)) = [(4, physics_slot)]"
proof -
  have found: "findById 5 (Swap school) = Some (5, alice_to_bob)"
    by (simp add: school_def findById_def findOne_def)
  have slot: "swap_slot alice_to_bob (3, math_slot)" "\<not> swap_slot alice_to_bob (4, physics_slot)"
    by (simp_all add: swap_slot_def alice_to_bob_def math_slot_def physics_slot_def)
  have to: "truthy (swp_toFaculty alice_to_bob)" "swp_toFaculty alice_to_bob = Some ''Bob''"
    by (simp_all add: truthy_def alice_to_bob_def)
  have sched: "Schedule school = [] @ (3, math_slot) # [(4, physics_slot)]"
    by (simp add: school_def)
  have found': "findById 5 (Swap (school\<lparr>Schedule := [(4, physics_slot)]\<rparr>)) = Some (5, alice_to_bob)"
    using found by simp
  show ?thesis
    using approve_existing_swap [OF found, of "[]" "(3, math_slot)" "[(4, physics_slot)]"]
      approve_existing_swap [OF found', of "[]" "(4, physics_slot)" "[]"]
      slot to sched
    by simp
qed



text \<open>
  C7.  Rejecting leaves the timetable as it was, for every store and every id; so it does
  the users, the faculty and the id counter, and a swap request either stays or is the
  request with that id, with its status set to \<^verbatim>\<open>"rejected"\<close>.
\<close>

theorem reject_keeps_schedules:
  "Schedule (snd (reject st i)) = Schedule st \<and>
   User (snd (reject st i)) = User st \<and>
   Faculty (snd (reject st i)) = Faculty st \<and>
   next_id (snd (reject st i)) = next_id st \<and>
   list_all2 (\<lambda>d d'. d' = d \<or> (fst d = i \<and> d' = (fst d, (snd d)\<lparr>swp_status := Some ''rejected''\<rparr>)))
     (Swap st) (Swap (snd (reject st i)))"
  using updateOne_list_all2 [of "\<lambda>d. fst d = i" "\<lambda>b. b\<lparr>swp_status := Some ''rejected''\<rparr>" "Swap st"]
  by (simp add: reject_def findByIdAndUpdate_new_def split: prod.splits)

text \<open>
  C6 (amended).  The swap request stored by \<^verbatim>\<open>POST /swaps\<close> has the status the body gives,
  and \<^verbatim>\<open>"pending"\<close> when the body gives none.
\<close>

theorem post_swaps_status:
  "post_swaps st b =
     (Response 200
        (SwapJson (next_id st,
           b\<lparr>swp_status := Some (case swp_status b of None \<Rightarrow> ''pending'' | Some s \<Rightarrow> s)\<rparr>)),
      st\<lparr>Swap := Swap st @
            [(next_id st,
              b\<lparr>swp_status := Some (case swp_status b of None \<Rightarrow> ''pending'' | Some s \<Rightarrow> s)\<rparr>)],
         next_id := Suc (next_id st)\<rparr>)"
  by (cases "swp_status b") (simp_all add: post_swaps_def new_Swap_def Let_def)

text \<open>The status is not always \<^verbatim>\<open>"pending"\<close>: a body may carry a status of its own.\<close>

theorem post_swaps_pending_counterexample:
  "swp_status (snd (last (Swap (snd (post_swaps school (alice_to_bob\<lparr>swp_status := Some ''approved''\<rparr>))))))
     = Some ''approved'' \<and>
   swp_status (snd (last (Swap (snd (post_swaps school (alice_to_bob\<lparr>swp_status := Some ''approved''\<rparr>))))))
     \<noteq> Some ''pending''"
  by (simp add: post_swaps_def new_Swap_def Let_def)

section \<open>Delete by id\<close>

text \<open>
  C8 (amended).  Deleting by an id that is a well-formed ObjectId (24 hexadecimal digits)
  and that no document of the collection has answers 200 with the payload \<^verbatim>\<open>null\<close> and
  leaves the store as it was.  Deleting by an id that is no ObjectId (neither 24 hexadecimal
  digits nor a string of 12 characters) throws a CastError outside any \<^verbatim>\<open>try\<close>: the handler
  sends no response, and the store stays as it was.
\<close>

theorem delete_missing_id:
  "(castObjectId p = Some i \<and> i \<notin> fst ` set (Faculty st) \<longrightarrow>
      delete_faculty st p = (Response 200 Null, st)) \<and>
   (castObjectId p = Some i \<and> i \<notin> fst ` set (Swap st) \<longrightarrow>
      delete_swap st p = (Response 200 Null, st)) \<and>
   (castObjectId p = Some i \<and> i \<notin> fst ` set (Schedule st) \<longrightarrow>
      delete_schedule st p = (Response 200 Null, st)) \<and>
   (castObjectId p = None \<and> length p \<noteq> 12 \<longrightarrow>
      delete_faculty st p = (Rejected CastError, st) \<and>
      delete_swap st p = (Rejected CastError, st) \<and>
      delete_schedule st p = (Rejected CastError, st))"
  by (simp add: delete_faculty_def delete_swap_def delete_schedule_def
      findByIdAndDelete_missing findByIdAndDelete_malformed)

theorem delete_missing_id_witness:
  "delete_faculty school ''000000000000000000000009'' = (Response 200 Null, school) \<and>
   delete_swap school ''000000000000000000000009'' = (Response 200 Null, school) \<and>
   delete_schedule school ''000000000000000000000009'' = (Response 200 Null, school) \<and>
   delete_faculty school ''abc'' = (Rejected CastError, school) \<and>
   delete_swap school ''abc'' = (Rejected CastError, school) \<and>
   delete_schedule school ''abc'' = (Rejected CastError, school)"
proof -
  have cast: "castObjectId ''000000000000000000000009'' = Some 9" "castObjectId ''abc'' = None"
    by code_simp+
  have missing: "9 \<notin> fst ` set (Faculty school)" "9 \<notin> fst ` set (Swap school)"
    "9 \<notin> fst ` set (Schedule school)"
    by (simp_all add: school_def)
  have short: "length ''abc'' \<noteq> 12"
    by simp
  show ?thesis
    using delete_missing_id [of "''000000000000000000000009''" 9 school]
      delete_missing_id [of "''abc''" 9 school] cast missing short
    by simp
qed

text \<open>The id \<^verbatim>\<open>abc\<close> matches no stored document, and no response of any kind is sent for
  it: the handler is rejected with the CastError.\<close>

theorem delete_malformed_id_counterexample:
  "castObjectId ''abc'' = None \<and>
   fst (delete_faculty school ''abc'') = Rejected CastError \<and>
   fst (delete_faculty school ''abc'') \<noteq> Response 200 Null \<and>
   snd (delete_faculty school ''abc'') = school"
  by code_simp

text \<open>The cast reads the digits in either case: the faculty document with the id 1 and the
  swap request with the id 5 are deleted through their 24 digits.\<close>

lemma delete_stored_id_example:
  "delete_faculty school ''000000000000000000000001'' =
     (Response 200 (FacultyJson (1, \<lparr>fac_name = Some ''Alice''\<rparr>)),
      school\<lparr>Faculty := [(2, \<lparr>fac_name = Some ''a+b''\<rparr>)]\<rparr>) \<and>
   castObjectId ''00000000000000000000001F'' = Some 31 \<and>
   castObjectId ''00000000000000000000001f'' = Some 31 \<and>
   castObjectId ''00000000000000000000001g'' = None"
  by code_simp

section \<open>Replacing the timetable of a grade\<close>

lemma Schedule_post_schedules:
  "Schedule (snd (post_schedules st b)) =
     filter (\<lambda>d. sch_grade (snd d) \<noteq> ps_grade b) (Schedule st) @
     insertMany (next_id st) (ps_schedules b)"
  by (simp add: post_schedules_def deleteMany_def Let_def)

text \<open>
  C3 (amended).  After \<^verbatim>\<open>POST /schedules\<close> with body \<open>{grade: G, schedules: L}\<close> the entries
  of grade \<open>G\<close> are exactly the entries of \<open>L\<close> whose own grade is \<open>G\<close>; the entries of the other
  grades are the prior ones, unchanged and in order, followed by the entries of \<open>L\<close> of
  another grade.  When every entry of \<open>L\<close> has the grade \<open>G\<close>, grade \<open>G\<close> has exactly the
  entries of \<open>L\<close> and the other grades are as before.  No prior document of grade \<open>G\<close>
  remains (the ids of the stored documents lying below the id counter).
\<close>

theorem post_schedules_grade_view:
  "map snd (filter (\<lambda>d. sch_grade (snd d) = ps_grade b) (Schedule (snd (post_schedules st b)))) =
     filter (\<lambda>e. sch_grade e = ps_grade b) (ps_schedules b) \<and>
   filter (\<lambda>d. sch_grade (snd d) \<noteq> ps_grade b) (Schedule (snd (post_schedules st b))) =
     filter (\<lambda>d. sch_grade (snd d) \<noteq> ps_grade b) (Schedule st) @
     filter (\<lambda>d. sch_grade (snd d) \<noteq> ps_grade b) (insertMany (next_id st) (ps_schedules b)) \<and>
   ((\<forall>e \<in> set (ps_schedules b). sch_grade e = ps_grade b) \<longrightarrow>
      map snd (filter (\<lambda>d. sch_grade (snd d) = ps_grade b) (Schedule (snd (post_schedules st b)))) =
        ps_schedules b \<and>
      filter (\<lambda>d. sch_grade (snd d) \<noteq> ps_grade b) (Schedule (snd (post_schedules st b))) =
        filter (\<lambda>d. sch_grade (snd d) \<noteq> ps_grade b) (Schedule st)) \<and>
   ((\<forall>d \<in> set (Schedule st). fst d < next_id st) \<longrightarrow>
      (\<forall>d \<in> set (Schedule st). sch_grade (snd d) = ps_grade b \<longrightarrow>
         d \<notin> set (Schedule (snd (post_schedules st b)))))"
proof -
  let ?G = "\<lambda>e. sch_grade e = ps_grade b"
  let ?new = "insertMany (next_id st) (ps_schedules b)"
  have view: "map snd (filter (\<lambda>d. ?G (snd d)) (Schedule (snd (post_schedules st b)))) =
      filter ?G (ps_schedules b)"
    using filter_insertMany [of ?G "next_id st" "ps_schedules b"]
    by (simp add: Schedule_post_schedules)
  have others: "filter (\<lambda>d. \<not> ?G (snd d)) (Schedule (snd (post_schedules st b))) =
      filter (\<lambda>d. \<not> ?G (snd d)) (Schedule st) @ filter (\<lambda>d. \<not> ?G (snd d)) ?new"
    by (simp add: Schedule_post_schedules)
  have all_G: "filter ?G (ps_schedules b) = ps_schedules b \<and> filter (\<lambda>d. \<not> ?G (snd d)) ?new = []"
    if "\<forall>e \<in> set (ps_schedules b). ?G e"
  proof -
    have "\<forall>d \<in> set ?new. ?G (snd d)"
      using that map_snd_insertMany [of "next_id st" "ps_schedules b"]
      by (metis (no_types, lifting) imageI set_map)
    then show ?thesis using that by (simp add: filter_empty_conv)
  qed
  have gone: "d \<notin> set (Schedule (snd (post_schedules st b)))"
    if inv: "\<forall>d \<in> set (Schedule st). fst d < next_id st"
      and d: "d \<in> set (Schedule st)" "?G (snd d)" for d
  proof
    assume "d \<in> set (Schedule (snd (post_schedules st b)))"
    with d(2) have "d \<in> set ?new"
      by (auto simp: Schedule_post_schedules)
    then have "next_id st \<le> fst d" by (rule fst_insertMany_ge)
    with inv d(1) show False by auto
  qed
  show ?thesis
    using view others all_G gone by auto
qed

theorem post_schedules_grade_view_witness:
  "map snd (filter (\<lambda>d. sch_grade (snd d) = Some ''10A'')
      (Schedule (snd (post_schedules school \<lparr>ps_grade = Some ''10A'',
         ps_schedules = [math_slot\<lparr>sch_faculty := Some ''Bob''\<rparr>]\<rparr>)))) =
     [math_slot\<lparr>sch_faculty := Some ''Bob''\<rparr>] \<and>
   filter (\<lambda>d. sch_grade (snd d) \<noteq> Some ''10A'')
      (Schedule (snd (post_schedules school \<lparr>ps_grade = Some ''10A'',
         ps_schedules = [math_slot\<lparr>sch_faculty := Some ''Bob''\<rparr>]\<rparr>))) = [(4, physics_slot)] \<and>
   (3, math_slot) \<notin> set (Schedule (snd (post_schedules school \<lparr>ps_grade = Some ''10A'',
         ps_schedules = [math_slot\<lparr>sch_faculty := Some ''Bob''\<rparr>]\<rparr>)))"
proof -
  let ?b = "\<lparr>ps_grade = Some ''10A'', ps_schedules = [math_slot\<lparr>sch_faculty := Some ''Bob''\<rparr>]\<rparr>"
  have all_G: "\<forall>e \<in> set (ps_schedules ?b). sch_grade e = ps_grade ?b"
    by (simp add: math_slot_def)
  have inv: "\<forall>d \<in> set (Schedule school). fst d < next_id school"
    by (simp add: school_def)
  have prior: "(3, math_slot) \<in> set (Schedule school)"
    "sch_grade (snd (3 :: nat, math_slot)) = ps_grade ?b"
    by (simp_all add: school_def math_slot_def)
  have kept: "filter (\<lambda>d. sch_grade (snd d) \<noteq> ps_grade ?b) (Schedule school) = [(4, physics_slot)]"
    by (simp add: school_def math_slot_def physics_slot_def)
  from post_schedules_grade_view [of ?b school] all_G inv
  have view: "map snd (filter (\<lambda>d. sch_grade (snd d) = ps_grade ?b)
        (Schedule (snd (post_schedules school ?b)))) = ps_schedules ?b"
    and others: "filter (\<lambda>d. sch_grade (snd d) \<noteq> ps_grade ?b)
        (Schedule (snd (post_schedules school ?b))) =
      filter (\<lambda>d. sch_grade (snd d) \<noteq> ps_grade ?b) (Schedule school)"
    and gone: "\<forall>d \<in> set (Schedule school). sch_grade (snd d) = ps_grade ?b \<longrightarrow>
        d \<notin> set (Schedule (snd (post_schedules school ?b)))"
    by blast+
  from gone prior have "(3, math_slot) \<notin> set (Schedule (snd (post_schedules school ?b)))"
    by blast
  with view others kept show ?thesis by simp
qed

text \<open>Not so when \<open>L\<close> holds an entry of another grade: grade \<open>G\<close> then
  does not have the entries of \<open>L\<close>.\<close>

theorem post_schedules_exactly_L_counterexample:
  "Schedule (snd (post_schedules school \<lparr>ps_grade = Some ''10A'', ps_schedules = [physics_slot]\<rparr>)) =
     [(4, physics_slot), (6, physics_slot)] \<and>
   map snd (filter (\<lambda>d. sch_grade (snd d) = Some ''10A'')
      (Schedule (snd (post_schedules school \<lparr>ps_grade = Some ''10A'', ps_schedules = [physics_slot]\<rparr>))))
     = [] \<and>
   map snd (filter (\<lambda>d. sch_grade (snd d) = Some ''10A'')
      (Schedule (snd (post_schedules school \<lparr>ps_grade = Some ''10A'', ps_schedules = [physics_slot]\<rparr>))))
     \<noteq> ps_schedules \<lparr>ps_grade = Some ''10A'', ps_schedules = [physics_slot]\<rparr>"
  by (simp add: post_schedules_def deleteMany_def insertMany_def school_def
      math_slot_def physics_slot_def Let_def)

text \<open>
  C10.  \<^verbatim>\<open>POST /schedules\<close> answers with, and stores, the entries of the request as they are
  given, whatever their grade; the delete before it removes the entries of the request's
  grade and no other.  So there is a request of grade \<open>G\<close> with an entry of another grade
  that ends up stored beside a timetable entry which that other grade already had.
\<close>

theorem post_schedules_inserts_verbatim:
  "fst (post_schedules st b) = Response 200 (SchedulesJson (insertMany (next_id st) (ps_schedules b))) \<and>
   map snd (insertMany (next_id st) (ps_schedules b)) = ps_schedules b \<and>
   Schedule (snd (post_schedules st b)) =
     filter (\<lambda>d. sch_grade (snd d) \<noteq> ps_grade b) (Schedule st) @
     insertMany (next_id st) (ps_schedules b) \<and>
   (\<exists>st' b' e d d'.
      e \<in> set (ps_schedules b') \<and> sch_grade e \<noteq> ps_grade b' \<and>
      d \<in> set (Schedule st') \<and> sch_grade (snd d) = sch_grade e \<and>
      d \<in> set (Schedule (snd (post_schedules st' b'))) \<and>
      d' \<in> set (Schedule (snd (post_schedules st' b'))) \<and> snd d' = e \<and> d' \<noteq> d)"
proof -
  let ?b = "\<lparr>ps_grade = Some ''10A'', ps_schedules = [physics_slot]\<rparr>"
  have "physics_slot \<in> set (ps_schedules ?b) \<and> sch_grade physics_slot \<noteq> ps_grade ?b \<and>
      (4, physics_slot) \<in> set (Schedule school) \<and>
      sch_grade (snd (4 :: nat, physics_slot)) = sch_grade physics_slot \<and>
      (4, physics_slot) \<in> set (Schedule (snd (post_schedules school ?b))) \<and>
      (6, physics_slot) \<in> set (Schedule (snd (post_schedules school ?b))) \<and>
      snd (6 :: nat, physics_slot) = physics_slot \<and> (6 :: nat, physics_slot) \<noteq> (4, physics_slot)"
    by (simp add: Schedule_post_schedules insertMany_def school_def physics_slot_def math_slot_def)
  then have "\<exists>st' b' e d d'.
      e \<in> set (ps_schedules b') \<and> sch_grade e \<noteq> ps_grade b' \<and>
      d \<in> set (Schedule st') \<and> sch_grade (snd d) = sch_grade e \<and>
      d \<in> set (Schedule (snd (post_schedules st' b'))) \<and>
      d' \<in> set (Schedule (snd (post_schedules st' b'))) \<and> snd d' = e \<and> d' \<noteq> d"
    by blast
  moreover have "fst (post_schedules st b) =
      Response 200 (SchedulesJson (insertMany (next_id st) (ps_schedules b)))"
    by (simp add: post_schedules_def Let_def)
  ultimately show ?thesis
    by (simp add: Schedule_post_schedules map_snd_insertMany)
qed

section \<open>Teacher login\<close>

lemma Faculty_findOne_regex_name:
  assumes "Faculty_findOne_regex source ds = Returns (Some F)"
  shows "\<exists>name. fac_name (snd F) = Some name"
proof -
  from assms obtain xs where
    "findOne (\<lambda>d. case fac_name (snd d) of None \<Rightarrow> False | Some n \<Rightarrow> RegExp_test xs n) ds = Some F"
    by (auto simp: Faculty_findOne_regex_def split: rx_parse.splits)
  then have "case fac_name (snd F) of None \<Rightarrow> False | Some n \<Rightarrow> RegExp_test xs n"
    by (auto simp: findOne_def find_Some_iff)
  then show ?thesis by (cases "fac_name (snd F)") auto
qed

text \<open>The first character of the trimmed name is the first character of the name that is
  no white space; trailing white space plays no part.\<close>

lemma trim_first:
  "take 1 (trim s) = (case dropWhile is_whitespace s of [] \<Rightarrow> [] | c # rest \<Rightarrow> [c])"
proof (cases "dropWhile is_whitespace s")
  case Nil
  show ?thesis unfolding trim_def Nil by simp
next
  case (Cons c rest)
  then have "\<not> is_whitespace c"
    by (metis hd_dropWhile list.distinct(1) list.sel(1))
  then have "\<exists>zs. dropWhile is_whitespace (rev rest @ [c]) = zs @ [c]"
    by (auto simp: dropWhile_append)
  then obtain zs where "dropWhile is_whitespace (rev rest @ [c]) = zs @ [c]" ..
  then show ?thesis unfolding trim_def Cons by simp
qed

lemma correctPassword_first:
  "correctPassword name =
     (case dropWhile is_whitespace name of
        [] \<Rightarrow> ''1234''
      | c # rest \<Rightarrow> toUpperCase_char c # ''1234'')"
proof -
  have "correctPassword name = toUpperCase (take 1 (trim name)) @ ''1234''"
    by (simp add: correctPassword_def charAt_def)
  then show ?thesis
    unfolding trim_first
    by (cases "dropWhile is_whitespace name") (simp_all only: list.case toUpperCase_def list.map append.simps)
qed

lemma correctPassword_explicit:
  "correctPassword name =
     (case dropWhile (\<lambda>c. (of_char c :: nat) \<in> {9, 10, 11, 12, 13, 32}) name of
        [] \<Rightarrow> ''1234''
      | c # rest \<Rightarrow>
          (if 97 \<le> (of_char c :: nat) \<and> (of_char c :: nat) \<le> 122
           then char_of ((of_char c :: nat) - 32) else c) # ''1234'')"
proof -
  have ws: "is_whitespace = (\<lambda>c. (of_char c :: nat) \<in> {9, 10, 11, 12, 13, 32})"
    by (rule ext) (simp only: is_whitespace_def)
  have up: "toUpperCase_char c =
      (if 97 \<le> (of_char c :: nat) \<and> (of_char c :: nat) \<le> 122
       then char_of ((of_char c :: nat) - 32) else c)" for c
    by (simp only: toUpperCase_char_def Let_def)
  show ?thesis
    unfolding correctPassword_first ws up ..
qed

lemma teacher_login_found:
  assumes "fac_name (snd F) = Some name"
  shows "teacher_login_v1 (Inr (Some F)) b =
      (if lg_password b = Some (correctPassword name)
       then Response 200
              (LoginJson None
                 (Jwt \<lparr>clm_id = None, clm_role = Some ''teacher'', clm_name = Some name,
                       clm_email = None\<rparr> 2)
                 (Some ''teacher'') (Some name))
       else Response 400 (Message ''Invalid password''))"
    and "teacher_login_v2 (Inr (Some F)) b =
      (if lg_password b = Some (correctPassword name)
       then Response 200
              (LoginJson (Some ''Faculty login successful'')
                 (Jwt \<lparr>clm_id = None, clm_role = Some ''teacher'', clm_name = Some name,
                       clm_email = None\<rparr> 1)
                 (Some ''teacher'') (Some name))
       else Response 400 (Message ''Invalid password''))"
  using assms by (simp_all add: teacher_login_v1_def teacher_login_v2_def)

lemma login_teacher_found:
  assumes "lg_role b = Some ''teacher''"
    and "Faculty_findOne_regex (''^'' @ js_string (lg_email b) @ ''$'') (Faculty st) = Returns (Some F)"
  shows "login_v1 st b = Some (teacher_login_v1 (Inr (Some F)) b)"
    and "truthy (lg_email b) \<Longrightarrow> truthy (lg_password b) \<Longrightarrow>
         login_v2 st b = Some (teacher_login_v2 (Inr (Some F)) b)"
  using assms by (simp_all add: login_v1_def login_v2_def falsy_def truthy_def)

text \<open>
  C2.  For every faculty record \<open>F\<close> that the lookup of a teacher login gives (a record
  with a name, whatever expression found it), there is one accepted password \<open>pw\<close>: the
  first character of \<open>F.name\<close> that is left after trimming, that is, the first one that is no
  white space, in upper case, followed by \<^verbatim>\<open>"1234"\<close> (and \<^verbatim>\<open>"1234"\<close> alone when nothing is left).
  The branch answers 200 for \<open>pw\<close> and 400, \<^verbatim>\<open>"Invalid password"\<close>, for every other password,
  in both variants.  \<open>pw\<close> is given twice: by its characters, and as the handler's
  \<^verbatim>\<open>name.trim().charAt(0).toUpperCase() + "1234"\<close>.  The last part ties the branch to the
  whole handler for the lookups the model evaluates: when the lookup returns \<open>F\<close>, the
  answer of the login is the answer of the branch (in variant 2 the lookup runs once the
  email and the password of the request are non-empty).
\<close>

theorem teacher_login_password:
  "(fac_name (snd F) = Some name \<longrightarrow>
      (\<exists>pw.
         pw = (case dropWhile (\<lambda>c. (of_char c :: nat) \<in> {9, 10, 11, 12, 13, 32}) name of
                 [] \<Rightarrow> ''1234''
               | c # rest \<Rightarrow>
                   (if 97 \<le> (of_char c :: nat) \<and> (of_char c :: nat) \<le> 122
                    then char_of ((of_char c :: nat) - 32) else c) # ''1234'') \<and>
         pw = toUpperCase (charAt (trim name) 0) @ ''1234'' \<and>
         teacher_login_v1 (Inr (Some F)) b =
           (if lg_password b = Some pw
            then Response 200
                   (LoginJson None
                      (Jwt \<lparr>clm_id = None, clm_role = Some ''teacher'', clm_name = Some name,
                            clm_email = None\<rparr> 2)
                      (Some ''teacher'') (Some name))
            else Response 400 (Message ''Invalid password'')) \<and>
         teacher_login_v2 (Inr (Some F)) b =
           (if lg_password b = Some pw
            then Response 200
                   (LoginJson (Some ''Faculty login successful'')
                      (Jwt \<lparr>clm_id = None, clm_role = Some ''teacher'', clm_name = Some name,
                            clm_email = None\<rparr> 1)
                      (Some ''teacher'') (Some name))
            else Response 400 (Message ''Invalid password'')))) \<and>
   (lg_role b = Some ''teacher'' \<and>
    Faculty_findOne_regex (''^'' @ js_string (lg_email b) @ ''$'') (Faculty st) = Returns (Some F) \<longrightarrow>
      (\<exists>n. fac_name (snd F) = Some n) \<and>
      login_v1 st b = Some (teacher_login_v1 (Inr (Some F)) b) \<and>
      (truthy (lg_email b) \<and> truthy (lg_password b) \<longrightarrow>
       login_v2 st b = Some (teacher_login_v2 (Inr (Some F)) b)))"
proof -
  have branch: "\<exists>pw.
         pw = (case dropWhile (\<lambda>c. (of_char c :: nat) \<in> {9, 10, 11, 12, 13, 32}) name of
                 [] \<Rightarrow> ''1234''
               | c # rest \<Rightarrow>
                   (if 97 \<le> (of_char c :: nat) \<and> (of_char c :: nat) \<le> 122
                    then char_of ((of_char c :: nat) - 32) else c) # ''1234'') \<and>
         pw = toUpperCase (charAt (trim name) 0) @ ''1234'' \<and>
         teacher_login_v1 (Inr (Some F)) b =
           (if lg_password b = Some pw
            then Response 200
                   (LoginJson None
                      (Jwt \<lparr>clm_id = None, clm_role = Some ''teacher'', clm_name = Some name,
                            clm_email = None\<rparr> 2)
                      (Some ''teacher'') (Some name))
            else Response 400 (Message ''Invalid password'')) \<and>
         teacher_login_v2 (Inr (Some F)) b =
           (if lg_password b = Some pw
            then Response 200
                   (LoginJson (Some ''Faculty login successful'')
                      (Jwt \<lparr>clm_id = None, clm_role = Some ''teacher'', clm_name = Some name,
                            clm_email = None\<rparr> 1)
                      (Some ''teacher'') (Some name))
            else Response 400 (Message ''Invalid password''))"
    if "fac_name (snd F) = Some name"
  proof (intro exI [of _ "correctPassword name"] conjI)
    show "correctPassword name =
        (case dropWhile (\<lambda>c. (of_char c :: nat) \<in> {9, 10, 11, 12, 13, 32}) name of
           [] \<Rightarrow> ''1234''
         | c # rest \<Rightarrow>
             (if 97 \<le> (of_char c :: nat) \<and> (of_char c :: nat) \<le> 122
              then char_of ((of_char c :: nat) - 32) else c) # ''1234'')"
      by (rule correctPassword_explicit)
    show "correctPassword name = toUpperCase (charAt (trim name) 0) @ ''1234''"
      by (simp add: correctPassword_def)
  qed (rule teacher_login_found [OF that])+
  have whole: "(\<exists>n. fac_name (snd F) = Some n) \<and>
      login_v1 st b = Some (teacher_login_v1 (Inr (Some F)) b) \<and>
      (truthy (lg_email b) \<and> truthy (lg_password b) \<longrightarrow>
       login_v2 st b = Some (teacher_login_v2 (Inr (Some F)) b))"
    if "lg_role b = Some ''teacher''"
      and "Faculty_findOne_regex (''^'' @ js_string (lg_email b) @ ''$'') (Faculty st) = Returns (Some F)"
    using that Faculty_findOne_regex_name [OF that(2)] login_teacher_found [OF that]
    by blast
  show ?thesis
    using branch whole by blast
qed

text \<open>The witness is a name with white space around it and a lower-case first letter, so
  that both the trimming and the upper case decide the password; its last part is a record
  found by an expression with a group, which the model does not evaluate.\<close>

theorem teacher_login_password_witness:
  "login_v1 staff_room (teacher_request padded_alice ''A1234'') =
     Some (Response 200
       (LoginJson None
          (Jwt \<lparr>clm_id = None, clm_role = Some ''teacher'', clm_name = Some padded_alice,
                clm_email = None\<rparr> 2)
          (Some ''teacher'') (Some padded_alice))) \<and>
   login_v2 staff_room (teacher_request padded_alice ''a1234'') =
     Some (Response 400 (Message ''Invalid password'')) \<and>
   login_v2 staff_room (teacher_request padded_alice (CHR 0x09 # ''1234'')) =
     Some (Response 400 (Message ''Invalid password'')) \<and>
   teacher_login_v2 (Inr (Some (1, \<lparr>fac_name = Some padded_alice\<rparr>)))
       (teacher_request ''(alice)'' ''A1234'') =
     Response 200
       (LoginJson (Some ''Faculty login successful'')
          (Jwt \<lparr>clm_id = None, clm_role = Some ''teacher'', clm_name = Some padded_alice,
                clm_email = None\<rparr> 1)
          (Some ''teacher'') (Some padded_alice))"
proof -
  let ?F = "(1 :: nat, \<lparr>fac_name = Some padded_alice\<rparr>)"
  have name: "fac_name (snd ?F) = Some padded_alice"
    by simp
  have role: "lg_role (teacher_request e p) = Some ''teacher''" for e p
    by (simp add: teacher_request_def)
  have found: "Faculty_findOne_regex (''^'' @ js_string (lg_email (teacher_request padded_alice p)) @ ''$'')
      (Faculty staff_room) = Returns (Some ?F)" for p
  proof -
    have "Faculty_findOne_regex (''^'' @ padded_alice @ ''$'') (Faculty staff_room) = Returns (Some ?F)"
      by code_simp
    then show ?thesis by (simp add: teacher_request_def js_string_def)
  qed
  have given: "truthy (lg_email (teacher_request padded_alice p))"
    "lg_password (teacher_request e p) = Some p"
    "truthy (lg_password (teacher_request e ''a1234''))"
    "truthy (lg_password (teacher_request e (CHR 0x09 # ''1234'')))" for e p
    by (simp_all add: teacher_request_def truthy_def padded_alice_def)
  have pw: "(case dropWhile (\<lambda>c. (of_char c :: nat) \<in> {9, 10, 11, 12, 13, 32}) padded_alice of
               [] \<Rightarrow> ''1234''
             | c # rest \<Rightarrow>
                 (if 97 \<le> (of_char c :: nat) \<and> (of_char c :: nat) \<le> 122
                  then char_of ((of_char c :: nat) - 32) else c) # ''1234'') = ''A1234''"
    by code_simp
  have v1: "login_v1 staff_room (teacher_request padded_alice ''A1234'') =
      Some (teacher_login_v1 (Inr (Some ?F)) (teacher_request padded_alice ''A1234''))"
    using teacher_login_password [of ?F padded_alice "teacher_request padded_alice ''A1234''" staff_room]
      role found by blast
  have v2: "login_v2 staff_room (teacher_request padded_alice p) =
      Some (teacher_login_v2 (Inr (Some ?F)) (teacher_request padded_alice p))"
    if "truthy (lg_password (teacher_request padded_alice p))" for p
    using teacher_login_password [of ?F padded_alice "teacher_request padded_alice p" staff_room]
      role found given(1) that by blast
  have branch1: "teacher_login_v1 (Inr (Some ?F)) (teacher_request e p) =
      (if p = ''A1234''
       then Response 200
              (LoginJson None
                 (Jwt \<lparr>clm_id = None, clm_role = Some ''teacher'', clm_name = Some padded_alice,
                       clm_email = None\<rparr> 2)
                 (Some ''teacher'') (Some padded_alice))
       else Response 400 (Message ''Invalid password''))" for e p
    using teacher_login_password [of ?F padded_alice "teacher_request e p" staff_room] name pw
    by (auto simp: given(2))
  have branch2: "teacher_login_v2 (Inr (Some ?F)) (teacher_request e p) =
      (if p = ''A1234''
       then Response 200
              (LoginJson (Some ''Faculty login successful'')
                 (Jwt \<lparr>clm_id = None, clm_role = Some ''teacher'', clm_name = Some padded_alice,
                       clm_email = None\<rparr> 1)
                 (Some ''teacher'') (Some padded_alice))
       else Response 400 (Message ''Invalid password''))" for e p
    using teacher_login_password [of ?F padded_alice "teacher_request e p" staff_room] name pw
    by (auto simp: given(2))
  show ?thesis
    using v1 v2 [OF given(3)] v2 [OF given(4)] branch1 branch2
    by simp
qed

text \<open>
  C5.  The identity string of a teacher login is used as a regular expression, not as a
  text to compare with: \<^verbatim>\<open>.*\<close> selects Alice, whose name it does not equal; \<^verbatim>\<open>a+b\<close> does not
  select the faculty named \<^verbatim>\<open>a+b\<close>; and \<^verbatim>\<open>*\<close> is no expression at all, so variant 1 throws and
  variant 2 answers 500 instead of the 400 of a name that is not found.
\<close>

theorem teacher_lookup_regex_metacharacters:
  "login_v1 school (teacher_request ''.*'' ''A1234'') =
     Some (Response 200
       (LoginJson None
          (Jwt \<lparr>clm_id = None, clm_role = Some ''teacher'', clm_name = Some ''Alice'',
                clm_email = None\<rparr> 2)
          (Some ''teacher'') (Some ''Alice''))) \<and>
   login_v2 school (teacher_request ''.*'' ''A1234'') =
     Some (Response 200
       (LoginJson (Some ''Faculty login successful'')
          (Jwt \<lparr>clm_id = None, clm_role = Some ''teacher'', clm_name = Some ''Alice'',
                clm_email = None\<rparr> 1)
          (Some ''teacher'') (Some ''Alice''))) \<and>
   login_v1 school (teacher_request ''a+b'' ''A1234'') =
     Some (Response 400 (Message ''Faculty not found'')) \<and>
   login_v2 school (teacher_request ''a+b'' ''A1234'') =
     Some (Response 400 (Message ''Faculty not found'')) \<and>
   login_v1 school (teacher_request ''*'' ''A1234'') = Some (Rejected SyntaxError) \<and>
   login_v2 school (teacher_request ''*'' ''A1234'') =
     Some (Response 500 (Message ''Server error''))"
  by code_simp

section \<open>Identity strings without metacharacters\<close>

lemma rx_items_plain:
  assumes "list_all (\<lambda>c. rx_token_of c = TAtom (Lit c)) E"
  shows "rx_items (map rx_token_of E @ [TEol]) = Pattern (map (\<lambda>c. Atom (Lit c) Once) E @ [Eol])"
  using assms
proof (induction E)
  case Nil
  then show ?case by (simp add: rx_cons_def)
next
  case (Cons c E)
  then show ?case by (cases E) (simp_all add: rx_cons_def)
qed

lemma RegExp_plain:
  assumes "plain_text E"
  shows "RegExp (''^'' @ E @ ''$'') = Pattern (Bol # map (\<lambda>c. Atom (Lit c) Once) E @ [Eol])"
proof -
  have ends: "rx_token_of (CHR ''^'') = TBol" "rx_token_of (CHR ''$'') = TEol"
    by (simp_all add: rx_token_of_def)
  have "TOutside \<notin> set (map rx_token_of E)"
    using assms by (auto simp: plain_text_def list_all_iff)
  then show ?thesis
    using assms rx_items_plain [of E]
    by (simp add: RegExp_def ends plain_text_def rx_cons_def)
qed

lemma match_here_plain:
  "match_here (map (\<lambda>c. Atom (Lit c) Once) E @ [Eol]) start s \<longleftrightarrow> toUpperCase s = toUpperCase E"
proof (induction E arbitrary: s start)
  case Nil
  then show ?case by (simp add: toUpperCase_def)
next
  case (Cons c E)
  then show ?case
    by (cases s) (auto simp: toUpperCase_def atom_matches_def)
qed

lemma match_from_Bol_later: "match_from (Bol # xs) False s = False"
  by (induction s) simp_all

lemma RegExp_test_anchored: "RegExp_test (Bol # xs) s = match_here xs True s"
  by (cases s) (simp_all add: RegExp_test_def match_from_Bol_later)

text \<open>
  When the identity string \<open>E\<close> of a teacher login has no metacharacter, the lookup
  selects the first faculty record whose name equals \<open>E\<close> up to the case of its letters.
\<close>

theorem teacher_lookup_plain_identity:
  assumes "plain_text E"
  shows "Faculty_findOne_regex (''^'' @ E @ ''$'') ds =
    Returns (findOne (\<lambda>d. case fac_name (snd d) of
                              None \<Rightarrow> False
                            | Some n \<Rightarrow> toUpperCase n = toUpperCase E) ds)"
  unfolding Faculty_findOne_regex_def RegExp_plain [OF assms]
  by (simp add: RegExp_test_anchored match_here_plain cong: option.case_cong)

theorem teacher_lookup_plain_identity_witness:
  "Faculty_findOne_regex ''^ALICE$'' (Faculty school) = Returns (Some (1, \<lparr>fac_name = Some ''Alice''\<rparr>))"
proof -
  have plain: "plain_text ''ALICE''"
    by code_simp
  have "findOne (\<lambda>d. case fac_name (snd d) of
                        None \<Rightarrow> False
                      | Some n \<Rightarrow> toUpperCase n = toUpperCase ''ALICE'') (Faculty school) =
      Some (1, \<lparr>fac_name = Some ''Alice''\<rparr>)"
    by code_simp
  then show ?thesis
    using teacher_lookup_plain_identity [OF plain, of "Faculty school"] by simp
qed

section \<open>Signup\<close>

lemma toLowerCase_char_idem: "toLowerCase_char (toLowerCase_char c) = toLowerCase_char c"
  by (simp add: toLowerCase_char_def Let_def)

lemma toLowerCase_idem: "toLowerCase (toLowerCase s) = toLowerCase s"
  by (simp add: toLowerCase_def toLowerCase_char_idem)

lemma emails_lowercase_iff:
  "emails_lowercase st \<longleftrightarrow> (\<forall>d \<in> set (User st). \<forall>e. usr_email (snd d) = Some e \<longrightarrow> toLowerCase e = e)"
  by (auto simp: emails_lowercase_def list_all_iff split: option.splits)

lemma save_User_v1_users:
  "save_User_v1 st u = Inr st' \<Longrightarrow> User st' = User st @ [(next_id st, u)]"
  by (auto simp: save_User_v1_def split: if_splits)

lemma save_User_v2_users:
  "save_User_v2 st u = Inr st' \<Longrightarrow> User st' = User st @ [(next_id st, u)]"
  by (auto simp: save_User_v2_def save_User_v1_users split: if_splits)

lemma signup_v2_users:
  "User (snd (signup_v2 st b)) = User st \<or>
   (\<exists>h. User (snd (signup_v2 st b)) =
      User st @ [(next_id st, \<lparr>usr_role = su_role b, usr_name = su_name b,
                   usr_email = map_option toLowerCase (su_email b), usr_password = Some h\<rparr>)])"
  by (auto simp: signup_v2_def Let_def dest: save_User_v2_users split: option.splits sum.splits)

lemma signup_v1_users:
  "User (snd (signup_v1 st u b)) = User st \<or>
   (\<exists>h. User (snd (signup_v1 st u b)) =
      User st @ [(next_id st, \<lparr>usr_role = su_role b, usr_name = su_name b,
                   usr_email = su_email b, usr_password = Some h\<rparr>)])"
  by (auto simp: signup_v1_def dest: save_User_v1_users split: sum.splits)

lemma signup_v2_keeps_lowercase:
  assumes "emails_lowercase st"
  shows "emails_lowercase (snd (signup_v2 st b))"
  using assms signup_v2_users [of st b]
  by (cases "su_email b") (auto simp: emails_lowercase_def toLowerCase_idem)

lemma seed_user_keeps_lowercase:
  assumes "emails_lowercase st" "toLowerCase email = email" "seed_user role name email password st = Inr st'"
  shows "emails_lowercase st'"
  using assms
  by (auto simp: seed_user_def emails_lowercase_def hashSync_def dest!: save_User_v2_users
      split: option.splits)

lemma seedDefaultAccounts_keeps_lowercase:
  assumes "emails_lowercase st"
  shows "emails_lowercase (seedDefaultAccounts st)"
proof -
  have lower: "toLowerCase ''student@smartclass.com'' = ''student@smartclass.com''"
    "toLowerCase ''admin@smartclass.com'' = ''admin@smartclass.com''"
    by code_simp+
  show ?thesis
    using assms lower
    by (auto simp: seedDefaultAccounts_def split: sum.splits
        dest: seed_user_keeps_lowercase)
qed

lemma signup_v2_conflict:
  assumes "emails_lowercase st" and "su_email b = Some e"
    and "d \<in> set (User st)" and "usr_email (snd d) = Some e'" and "toLowerCase e' = toLowerCase e"
  shows "signup_v2 st b =
    (Response 400 (Message (if truthy (su_role b) \<and> truthy (su_name b) \<and> e \<noteq> [] \<and> truthy (su_password b)
                            then ''User already exists'' else ''All fields required'')), st)"
proof -
  from assms(1,3,4) have "toLowerCase e' = e'"
    by (auto simp: emails_lowercase_iff)
  with assms(4,5) have "usr_email (snd d) = Some (toLowerCase e)" by simp
  with assms(3) have "findOne (\<lambda>d. usr_email (snd d) = Some (toLowerCase e)) (User st) \<noteq> None"
    unfolding findOne_def find_None_iff by blast
  then show ?thesis
    using assms(2) by (auto simp: signup_v2_def falsy_def truthy_def Let_def)
qed

text \<open>
  C4 (amended).  The signup of variant 2 puts the email into lower case before the lookup
  and before storing: whatever user it adds carries the lower-case email.  It keeps every
  stored email in lower case, as the seeding does; and on such a store a signup whose email
  differs only in letter case from a stored one answers 400 and adds no user (with
  \<^verbatim>\<open>"User already exists"\<close> when all four fields are given).  The signup of variant 1 stores
  the email as it is supplied.
\<close>

theorem signup_v2_email_lowercased:
  "(User (snd (signup_v2 st b)) = User st \<or>
    (\<exists>h. User (snd (signup_v2 st b)) =
       User st @ [(next_id st, \<lparr>usr_role = su_role b, usr_name = su_name b,
                    usr_email = map_option toLowerCase (su_email b), usr_password = Some h\<rparr>)])) \<and>
   (emails_lowercase st \<longrightarrow>
      emails_lowercase (snd (signup_v2 st b)) \<and> emails_lowercase (seedDefaultAccounts st)) \<and>
   (emails_lowercase st \<and> su_email b = Some e \<and> d \<in> set (User st) \<and>
    usr_email (snd d) = Some e' \<and> toLowerCase e' = toLowerCase e \<longrightarrow>
      signup_v2 st b =
        (Response 400
           (Message (if truthy (su_role b) \<and> truthy (su_name b) \<and> e \<noteq> [] \<and> truthy (su_password b)
                     then ''User already exists'' else ''All fields required'')), st)) \<and>
   (User (snd (signup_v1 st u b)) = User st \<or>
    (\<exists>h. User (snd (signup_v1 st u b)) =
       User st @ [(next_id st, \<lparr>usr_role = su_role b, usr_name = su_name b,
                    usr_email = su_email b, usr_password = Some h\<rparr>)]))"
  using signup_v2_users [of st b] signup_v2_keeps_lowercase [of st b]
    seedDefaultAccounts_keeps_lowercase [of st] signup_v2_conflict [of st b e d e']
    signup_v1_users [of st u b]
  by blast

theorem signup_v2_email_lowercased_witness:
  "signup_v2 school bob_again = (Response 400 (Message ''User already exists''), school) \<and>
   emails_lowercase (snd (signup_v2 school bob_again)) \<and>
   emails_lowercase (seedDefaultAccounts school)"
proof -
  have lower: "emails_lowercase school"
    by code_simp
  have given: "su_email bob_again = Some ''Bob@X.com''" "(0, bob_user) \<in> set (User school)"
    "usr_email (snd (0 :: nat, bob_user)) = Some ''bob@x.com''"
    "truthy (su_role bob_again)" "truthy (su_name bob_again)" "truthy (su_password bob_again)"
    by (simp_all add: bob_again_def school_def bob_user_def truthy_def)
  have same: "toLowerCase ''bob@x.com'' = toLowerCase ''Bob@X.com''"
    by code_simp
  show ?thesis
    using signup_v2_email_lowercased [of school bob_again "''Bob@X.com''" "(0, bob_user)" "''bob@x.com''"
        admin_token]
      lower given same
    by simp
qed

text \<open>Variant 1 does not normalise: the email is stored as it is supplied, and a
  signup that differs from a stored email in letter case only creates a second user.\<close>

theorem signup_v1_case_counterexample:
  "toLowerCase ''Bob@X.com'' = ''bob@x.com'' \<and>
   usr_email (snd (hd (User school))) = Some ''bob@x.com'' \<and>
   fst (signup_v1 school admin_token bob_again) = Response 200 (Message ''User created'') \<and>
   map (\<lambda>d. usr_email (snd d)) (User (snd (signup_v1 school admin_token bob_again))) =
     [Some ''bob@x.com'', Some ''Bob@X.com'']"
  by code_simp

text \<open>The store must hold lower-case emails for the rejection: on a store where variant 1
  has put \<^verbatim>\<open>Bob@X.com\<close>, the signup of variant 2 accepts \<^verbatim>\<open>bob@x.com\<close>.\<close>

lemma signup_v2_mixed_case_store:
  "fst (signup_v2 (snd (signup_v1 (school\<lparr>User := []\<rparr>) admin_token bob_again))
          (bob_again\<lparr>su_email := Some ''bob@x.com''\<rparr>)) =
     Response 200 (Message ''Signup successful'')"
  by code_simp

end
